theory Spec2Isabelle
  imports Main "HOL-Library.Word" "HOL-Library.AList"
begin

unbundle bit_operations_syntax

section \<open>Data model\<close>

text \<open>
  A shallow embedding of the memcache client (\<^verbatim>\<open>server_conn.go\<close>, \<^verbatim>\<open>server.go\<close>,
  \<^verbatim>\<open>addr.go\<close> and the client file holding \<^verbatim>\<open>legalKey\<close>, \<^verbatim>\<open>ServerList\<close> and
  \<^verbatim>\<open>Client\<close>). Go strings are byte strings, modelled as \<^typ>\<open>string\<close> (a list of
  8-bit characters); byte slices are lists of 8-bit words.
\<close>

type_synonym byte = "8 word"

text \<open>
  The sentinel errors of \<^verbatim>\<open>server_conn.go\<close>. A \<^verbatim>\<open>response\<close> status is itself an
  error value in Go (\<^verbatim>\<open>asError\<close> returns \<^verbatim>\<open>r\<close>): constructor \<open>Resp\<close>. Errors made
  outside the package (transport, pool, \<^verbatim>\<open>fmt.Errorf\<close>, \<^verbatim>\<open>errors.New\<close>) carry their
  message: constructor \<open>ErrOther\<close>.
\<close>

datatype error =
    ErrCacheMiss
  | ErrCASConflict
  | ErrNotStored
  | ErrServerError
  | ErrNoStats
  | ErrMalformedKey
  | ErrNoServers
  | ErrBadMagic
  | ErrBadIncrDec
  | Resp "16 word"
  | ErrOther string

section \<open>Key validator\<close>

text \<open>
  \<^verbatim>\<open>legalKey\<close>: the loop over the bytes of the key returns false at the first byte
  that is \<open>\<le> ' '\<close> (0x20) or \<open>> 0x7e\<close>.
\<close>

fun legalKey_loop :: "string \<Rightarrow> bool" where
  "legalKey_loop [] = True"
| "legalKey_loop (c # cs) =
     (if (of_char c :: nat) \<le> 0x20 \<or> (of_char c :: nat) > 0x7e then False
      else legalKey_loop cs)"

definition legalKey :: "string \<Rightarrow> bool" where
  "legalKey key = (if length key > 250 then False else legalKey_loop key)"

section \<open>Byte order\<close>

text \<open>
  \<^verbatim>\<open>binary.BigEndian\<close> of the Go standard library: \<^verbatim>\<open>PutUint16/32/64\<close> store the
  most significant byte first, \<^verbatim>\<open>Uint16/32/64\<close> read it back. The readers index
  their argument (\<^verbatim>\<open>b[1]\<close>, \<^verbatim>\<open>b[3]\<close>, \<^verbatim>\<open>b[7]\<close>) and panic on a shorter slice:
  every caller below whose slice length is not fixed checks the length first and
  models the panic.
\<close>

definition putUint16 :: "16 word \<Rightarrow> byte list" where
  "putUint16 v = [ucast (drop_bit 8 v), ucast v]"

definition putUint32 :: "32 word \<Rightarrow> byte list" where
  "putUint32 v = [ucast (drop_bit 24 v), ucast (drop_bit 16 v), ucast (drop_bit 8 v), ucast v]"

definition putUint64 :: "64 word \<Rightarrow> byte list" where
  "putUint64 v =
     [ucast (drop_bit 56 v), ucast (drop_bit 48 v), ucast (drop_bit 40 v), ucast (drop_bit 32 v),
      ucast (drop_bit 24 v), ucast (drop_bit 16 v), ucast (drop_bit 8 v), ucast v]"

definition bUint16 :: "byte list \<Rightarrow> 16 word" where
  "bUint16 b = ucast (b ! 1) OR push_bit 8 (ucast (b ! 0))"

definition bUint32 :: "byte list \<Rightarrow> 32 word" where
  "bUint32 b =
     ucast (b ! 3) OR push_bit 8 (ucast (b ! 2)) OR push_bit 16 (ucast (b ! 1))
       OR push_bit 24 (ucast (b ! 0))"

definition bUint64 :: "byte list \<Rightarrow> 64 word" where
  "bUint64 b =
     ucast (b ! 7) OR push_bit 8 (ucast (b ! 6)) OR push_bit 16 (ucast (b ! 5))
       OR push_bit 24 (ucast (b ! 4)) OR push_bit 32 (ucast (b ! 3))
       OR push_bit 40 (ucast (b ! 2)) OR push_bit 48 (ucast (b ! 1))
       OR push_bit 56 (ucast (b ! 0))"

text \<open>The Go slice expression \<^verbatim>\<open>b[i:j]\<close>, for \<open>i \<le> j \<le> len(b)\<close>.\<close>

definition subslice :: "'a list \<Rightarrow> nat \<Rightarrow> nat \<Rightarrow> 'a list" where
  "subslice b i j = take (j - i) (drop i b)"

text \<open>The number a byte sequence denotes, most significant byte first.\<close>

definition be_nat :: "byte list \<Rightarrow> nat" where
  "be_nat bs = foldl (\<lambda>a b. a * 256 + unat b) 0 bs"

section \<open>Connections\<close>

text \<open>
  A \<^verbatim>\<open>net.Conn\<close> as the client sees it: \<open>rd\<close> is what the peer will deliver to the
  reads, in order, followed by end of file; \<open>wr\<close> collects the bytes written;
  \<open>wok\<close> is the number of \<^verbatim>\<open>Write\<close> calls that still succeed (a later one fails
  and writes nothing).
\<close>

record conn =
  rd :: "byte list"
  wr :: "byte list"
  wok :: nat

definition Write :: "conn \<Rightarrow> byte list \<Rightarrow> error option \<times> conn" where
  "Write cn buf =
     (if wok cn = 0 then (Some (ErrOther ''write: broken pipe''), cn)
      else (None, cn\<lparr>wr := wr cn @ buf, wok := wok cn - 1\<rparr>))"

text \<open>
  Modelled from the spec: \<^verbatim>\<open>readAtLeast\<close> is called by \<^verbatim>\<open>parseResponse\<close> and is not
  among the sources. The spec has every read "a short-read-safe full read (fail
  with IOError on premature EOF/partial read)": the next \<open>n\<close> bytes of the stream,
  or an error when the stream ends first (\<^verbatim>\<open>EOF\<close> when nothing is left,
  \<^verbatim>\<open>unexpected EOF\<close> after a partial read, as \<^verbatim>\<open>io.ReadAtLeast\<close> reports them).
\<close>

definition readAtLeast :: "conn \<Rightarrow> nat \<Rightarrow> (error + byte list) \<times> conn" where
  "readAtLeast cn n =
     (if n \<le> length (rd cn) then (Inr (take n (rd cn)), cn\<lparr>rd := drop n (rd cn)\<rparr>)
      else if rd cn = [] then (Inl (ErrOther ''EOF''), cn)
      else (Inl (ErrOther ''unexpected EOF''), cn\<lparr>rd := []\<rparr>))"

text \<open>
  \<^verbatim>\<open>io.CopyN(ioutil.Discard, cn, n)\<close> of the standard library: consumes \<open>n\<close> bytes,
  or fails with \<^verbatim>\<open>EOF\<close> when the stream ends first.
\<close>

definition CopyN_Discard :: "conn \<Rightarrow> nat \<Rightarrow> error option \<times> conn" where
  "CopyN_Discard cn n =
     (if n \<le> length (rd cn) then (None, cn\<lparr>rd := drop n (rd cn)\<rparr>)
      else (Some (ErrOther ''EOF''), cn\<lparr>rd := []\<rparr>))"

section \<open>Codec\<close>

text \<open>The commands and response statuses of \<^verbatim>\<open>server_conn.go\<close> that the client uses.\<close>

definition cmdGet :: byte where "cmdGet = 0x00"
definition cmdSet :: byte where "cmdSet = 0x01"
definition cmdAdd :: byte where "cmdAdd = 0x02"
definition cmdDelete :: byte where "cmdDelete = 0x04"
definition cmdIncr :: byte where "cmdIncr = 0x05"
definition cmdDecr :: byte where "cmdDecr = 0x06"
definition cmdFlush :: byte where "cmdFlush = 0x08"
definition cmdNoop :: byte where "cmdNoop = 0x0a"
definition cmdGetKQ :: byte where "cmdGetKQ = 0x0d"

definition respOk :: "16 word" where "respOk = 0"
definition respKeyNotFound :: "16 word" where "respKeyNotFound = 1"
definition respKeyExists :: "16 word" where "respKeyExists = 2"
definition respInvalidArgs :: "16 word" where "respInvalidArgs = 4"
definition respItemNotStored :: "16 word" where "respItemNotStored = 5"
definition respInvalidIncrDecr :: "16 word" where "respInvalidIncrDecr = 6"

definition reqMagic :: byte where "reqMagic = 0x80"
definition respMagic :: byte where "respMagic = 0x81"

text \<open>\<^verbatim>\<open>response.asError\<close>: the switch, then \<^verbatim>\<open>return r\<close>.\<close>

definition asError :: "16 word \<Rightarrow> error" where
  "asError r =
     (if r = respKeyNotFound then ErrCacheMiss
      else if r = respKeyExists then ErrNotStored
      else if r = respInvalidIncrDecr then ErrBadIncrDec
      else if r = respItemNotStored then ErrNotStored
      else Resp r)"

text \<open>
  Modelled from the spec: \<^verbatim>\<open>stobs\<close> is called by \<^verbatim>\<open>sendConnCommand\<close> and
  \<^verbatim>\<open>PickServerIndex\<close> and is not among the sources. The spec has the key written and
  hashed as its "raw key bytes": the bytes of the string, unchanged.
\<close>

definition stobs :: "string \<Rightarrow> byte list" where
  "stobs s = map of_char s"

text \<open>
  \<^verbatim>\<open>sendConnCommand\<close>. The 24-byte buffer starts as zeros and the fields are stored
  at their offsets; \<^verbatim>\<open>uint16(kl)\<close>, \<^verbatim>\<open>byte(el)\<close> and \<^verbatim>\<open>uint32(kl + el + vl)\<close> keep
  the low bits of the lengths. Extras and key are appended when non-empty and the
  buffer is written in one call; a non-empty value is written in a second call.
\<close>

definition reqBuf :: "string \<Rightarrow> byte \<Rightarrow> byte list \<Rightarrow> 64 word \<Rightarrow> byte list \<Rightarrow> byte list" where
  "reqBuf key cmd val casid extras =
     (let kl = length key; el = length extras; vl = length val;
          bl = (of_nat (kl + el + vl) :: 32 word);
          buf = [reqMagic, cmd] @ putUint16 (of_nat kl) @ [of_nat el, 0, 0, 0]
                  @ putUint32 bl @ [0, 0, 0, 0] @ putUint64 casid;
          buf = (if el > 0 then buf @ extras else buf);
          buf = (if kl > 0 then buf @ stobs key else buf)
      in buf)"

definition sendConnCommand ::
    "conn \<Rightarrow> string \<Rightarrow> byte \<Rightarrow> byte list \<Rightarrow> 64 word \<Rightarrow> byte list \<Rightarrow> error option \<times> conn" where
  "sendConnCommand cn key cmd val casid extras =
     (case Write cn (reqBuf key cmd val casid extras) of
        (Some err, cn1) \<Rightarrow> (Some err, cn1)
      | (None, cn1) \<Rightarrow> if length val > 0 then Write cn1 val else (None, cn1))"

text \<open>
  \<^verbatim>\<open>parseResponse\<close>. The result is the error, or the header, key, extras and
  value, together with the connection as the reads left it. \<^verbatim>\<open>hdr\<close> always holds
  24 bytes. \<^verbatim>\<open>total\<close>, \<^verbatim>\<open>el\<close>, \<^verbatim>\<open>kl\<close> and \<^verbatim>\<open>vl\<close> are Go \<^verbatim>\<open>int\<close>s: \<^verbatim>\<open>vl\<close> is
  negative when the header's lengths are inconsistent, and then no value is read.
\<close>

definition parseResponse ::
    "string \<Rightarrow> conn \<Rightarrow> (error + byte list \<times> byte list \<times> byte list \<times> byte list) \<times> conn" where
  "parseResponse rKey cn =
     (case readAtLeast cn 24 of
        (Inl err, cn1) \<Rightarrow> (Inl err, cn1)
      | (Inr hdr, cn1) \<Rightarrow>
          if hdr ! 0 \<noteq> respMagic then (Inl ErrBadMagic, cn1)
          else
            let total = int (unat (bUint32 (subslice hdr 8 12)));
                status = bUint16 (subslice hdr 6 8)
            in if status \<noteq> respOk then
                 (case CopyN_Discard cn1 (nat total) of
                    (Some err, cn2) \<Rightarrow> (Inl err, cn2)
                  | (None, cn2) \<Rightarrow>
                      if status = respInvalidArgs \<and> \<not> legalKey rKey then (Inl ErrMalformedKey, cn2)
                      else (Inl (asError status), cn2))
               else
                 let el = int (unat (hdr ! 4)) in
                 (case (if el > 0 then readAtLeast cn1 (nat el) else (Inr [], cn1)) of
                    (Inl err, cn2) \<Rightarrow> (Inl err, cn2)
                  | (Inr extras, cn2) \<Rightarrow>
                      let kl = int (unat (bUint16 (subslice hdr 2 4))) in
                      (case (if kl > 0 then readAtLeast cn2 (nat kl) else (Inr [], cn2)) of
                         (Inl err, cn3) \<Rightarrow> (Inl err, cn3)
                       | (Inr key, cn3) \<Rightarrow>
                           let vl = total - el - kl in
                           (case (if vl > 0 then readAtLeast cn3 (nat vl) else (Inr [], cn3)) of
                              (Inl err, cn4) \<Rightarrow> (Inl err, cn4)
                            | (Inr val, cn4) \<Rightarrow> (Inr (hdr, key, extras, val), cn4)))))"

section \<open>Server list and shard selector\<close>

text \<open>
  \<^verbatim>\<open>crc32.ChecksumIEEE\<close> of the Go standard library: the reflected CRC-32 with
  polynomial \<open>0xEDB88320\<close>, register preset to all ones and inverted at the end,
  one bit at a time.
\<close>

definition crc_bit :: "32 word \<Rightarrow> 32 word" where
  "crc_bit c = (if bit c 0 then drop_bit 1 c XOR 0xEDB88320 else drop_bit 1 c)"

definition crc_byte :: "32 word \<Rightarrow> byte \<Rightarrow> 32 word" where
  "crc_byte c b = (crc_bit ^^ 8) (c XOR ucast b)"

definition ChecksumIEEE :: "byte list \<Rightarrow> 32 word" where
  "ChecksumIEEE bs = NOT (foldl crc_byte (NOT 0) bs)"

text \<open>
  A call either returns or panics (a Go run-time panic: an index out of range, an
  integer division by zero). What a returning call returns is a Go result, with
  the error, when there is one, on the left.
\<close>

datatype 'a outcome = Returns 'a | Panics string

text \<open>
  \<^verbatim>\<open>pool.Pool\<close> of \<^verbatim>\<open>github.com/silenceper/pool\<close> is outside the repository. A
  pool is modelled by what its \<^verbatim>\<open>Get\<close> hands out: a connection, or the error of
  the failed checkout. What the client does with the pools is recorded as a log
  of events: \<open>Got i\<close> for a connection handed out by pool \<open>i\<close>, \<open>Put i cn\<close> for
  connection \<open>cn\<close> returned to it, \<open>Closed i cn\<close> for \<open>cn\<close> force-closed.
\<close>

type_synonym Pool = "error + conn"

datatype event = Got "32 word" | Put "32 word" conn | Closed "32 word" conn

record Config =
  Server :: string
  User :: string
  Password :: string
  InitialCap :: int
  MaxCap :: int
  MaxIdle :: int
  IdleTimeout :: int
  ConnectionTimeout :: int

record ServerList =
  pool :: "Pool list"
  poolLen :: "32 word"
  serversNames :: "string list"

text \<open>
  \<^verbatim>\<open>NewServerList\<close>. Address resolution (\<^verbatim>\<open>net.ResolveUnixAddr\<close>,
  \<^verbatim>\<open>net.ResolveTCPAddr\<close>) and \<^verbatim>\<open>newPool\<close>, which dials, are the environment:
  \<open>resolve network address\<close> and \<open>newPool addr config\<close> are parameters. The loop
  fills \<^verbatim>\<open>servers[i]\<close> in index order, so the pools are collected in order here;
  \<^verbatim>\<open>serversName\<close> starts as \<^verbatim>\<open>make([]string, len(configs))\<close>, that is
  \<^verbatim>\<open>len(configs)\<close> empty strings, and each \<^verbatim>\<open>config.Server\<close> is appended to it.
\<close>

fun NewServerList_loop ::
    "(string \<Rightarrow> string \<Rightarrow> error + string) \<Rightarrow> (string \<Rightarrow> Config \<Rightarrow> error + Pool) \<Rightarrow>
     Config list \<Rightarrow> Pool list \<Rightarrow> string list \<Rightarrow> nat \<Rightarrow> error + ServerList" where
  "NewServerList_loop resolve newPool [] servers serversName serversLen =
     Inr \<lparr>pool = servers, poolLen = of_nat serversLen, serversNames = serversName\<rparr>"
| "NewServerList_loop resolve newPool (config # configs) servers serversName serversLen =
     (case resolve (if CHR ''/'' \<in> set (Server config) then ''unix'' else ''tcp'') (Server config) of
        Inl err \<Rightarrow> Inl err
      | Inr addr \<Rightarrow>
          (case newPool addr config of
             Inl err \<Rightarrow> Inl err
           | Inr p \<Rightarrow>
               NewServerList_loop resolve newPool configs (servers @ [p])
                 (serversName @ [Server config]) (serversLen + 1)))"

definition NewServerList ::
    "(string \<Rightarrow> string \<Rightarrow> error + string) \<Rightarrow> (string \<Rightarrow> Config \<Rightarrow> error + Pool) \<Rightarrow>
     Config list \<Rightarrow> error + ServerList" where
  "NewServerList resolve newPool configs =
     NewServerList_loop resolve newPool configs [] (replicate (length configs) []) 0"

text \<open>
  \<^verbatim>\<open>PickServerIndex\<close>. \<^verbatim>\<open>uint32(len(s.pool))\<close> keeps the low 32 bits of the
  length; a remainder by zero panics in Go.
\<close>

definition PickServerIndex :: "ServerList \<Rightarrow> string \<Rightarrow> (error + 32 word) outcome" where
  "PickServerIndex s key =
     (if length (pool s) = 0 then Returns (Inl ErrNoServers)
      else
        let cs = ChecksumIEEE (stobs key) in
        if (of_nat (length (pool s)) :: 32 word) = 0 then Panics ''integer divide by zero''
        else Returns (Inr (cs mod of_nat (length (pool s)))))"

text \<open>
  \<^verbatim>\<open>GetConnection\<close>, \<^verbatim>\<open>PutConnection\<close> and \<^verbatim>\<open>CloseConnection\<close>. The guard is
  \<^verbatim>\<open>s.poolLen < index\<close>; \<^verbatim>\<open>s.pool[index]\<close> panics when the index is out of
  range. Every caller discards the error of \<^verbatim>\<open>PutConnection\<close> and
  \<^verbatim>\<open>CloseConnection\<close> (\<^verbatim>\<open>_ = ...\<close>), so these two return the log only.
\<close>

definition GetConnection ::
    "ServerList \<Rightarrow> 32 word \<Rightarrow> event list \<Rightarrow> (error + conn) outcome \<times> event list" where
  "GetConnection s index log =
     (if poolLen s < index then (Returns (Inl (ErrOther ''server not found'')), log)
      else if length (pool s) \<le> unat index then (Panics ''index out of range'', log)
      else (case pool s ! unat index of
              Inl err \<Rightarrow> (Returns (Inl err), log)
            | Inr cn \<Rightarrow> (Returns (Inr cn), log @ [Got index])))"

definition PutConnection :: "ServerList \<Rightarrow> 32 word \<Rightarrow> conn \<Rightarrow> event list \<Rightarrow> event list outcome" where
  "PutConnection s index cn log =
     (if poolLen s < index then Returns log
      else if length (pool s) \<le> unat index then Panics ''index out of range''
      else Returns (log @ [Put index cn]))"

definition CloseConnection :: "ServerList \<Rightarrow> 32 word \<Rightarrow> conn \<Rightarrow> event list \<Rightarrow> event list outcome" where
  "CloseConnection s index cn log =
     (if poolLen s < index then Returns log
      else if length (pool s) \<le> unat index then Panics ''index out of range''
      else Returns (log @ [Closed index cn]))"

definition Name :: "ServerList \<Rightarrow> 32 word \<Rightarrow> string outcome" where
  "Name s index =
     (if length (serversNames s) \<le> unat index then Panics ''index out of range''
      else Returns (serversNames s ! unat index))"

text \<open>
  The switch that follows a round trip in every operation:
  \<^verbatim>\<open>case nil, ErrCacheMiss, ErrCASConflict, ErrNotStored, ErrBadIncrDec\<close> puts the
  connection back, \<^verbatim>\<open>default\<close> closes it. The source repeats it at each place.
\<close>

definition switchErr ::
    "ServerList \<Rightarrow> 32 word \<Rightarrow> conn \<Rightarrow> error option \<Rightarrow> event list \<Rightarrow> event list outcome" where
  "switchErr s serverIndex cn err log =
     (if err = None \<or> err = Some ErrCacheMiss \<or> err = Some ErrCASConflict
         \<or> err = Some ErrNotStored \<or> err = Some ErrBadIncrDec
      then PutConnection s serverIndex cn log
      else CloseConnection s serverIndex cn log)"

section \<open>Client operations\<close>

text \<open>
  \<^verbatim>\<open>Item\<close>. \<^verbatim>\<open>Expiration\<close> is an \<^verbatim>\<open>int32\<close> that the client only converts to
  \<^verbatim>\<open>uint32\<close>: a 32-bit word. An operation that takes \<^verbatim>\<open>*Item\<close> returns the item as
  it leaves it.
\<close>

record Item =
  Key :: string
  Value :: "byte list"
  Flags :: "32 word"
  Expiration :: "32 word"
  casid :: "64 word"

text \<open>The Go conversion \<^verbatim>\<open>string(k)\<close> of a byte slice.\<close>

definition bstos :: "byte list \<Rightarrow> string" where
  "bstos bs = map (\<lambda>b. char_of (unat b)) bs"

text \<open>
  The item built from a parsed response by \<^verbatim>\<open>Get\<close> and \<^verbatim>\<open>GetMulti\<close>:
  \<^verbatim>\<open>bUint32(extras)\<close> is called when \<^verbatim>\<open>len(extras) > 0\<close> and panics on fewer
  than four bytes.
\<close>

definition mkItem :: "string \<Rightarrow> byte list \<Rightarrow> byte list \<Rightarrow> byte list \<Rightarrow> Item outcome" where
  "mkItem key hdr extras val =
     (if length extras > 0 \<and> length extras < 4 then Panics ''index out of range''
      else Returns \<lparr>Key = key, Value = val,
                    Flags = (if length extras > 0 then bUint32 extras else 0),
                    Expiration = 0, casid = bUint64 (subslice hdr 16 24)\<rparr>)"

text \<open>\<^verbatim>\<open>Client.Get\<close>.\<close>

definition Get ::
    "ServerList \<Rightarrow> string \<Rightarrow> event list \<Rightarrow> (error + Item) outcome \<times> event list" where
  "Get s key log =
     (case PickServerIndex s key of
        Panics m \<Rightarrow> (Panics m, log)
      | Returns (Inl err) \<Rightarrow> (Returns (Inl err), log)
      | Returns (Inr serverIndex) \<Rightarrow>
          (case GetConnection s serverIndex log of
             (Panics m, log1) \<Rightarrow> (Panics m, log1)
           | (Returns (Inl err), log1) \<Rightarrow> (Returns (Inl err), log1)
           | (Returns (Inr cn), log1) \<Rightarrow>
               (case sendConnCommand cn key cmdGet [] 0 [] of
                  (Some err, cn1) \<Rightarrow>
                    (case CloseConnection s serverIndex cn1 log1 of
                       Panics m \<Rightarrow> (Panics m, log1)
                     | Returns log2 \<Rightarrow> (Returns (Inl err), log2))
                | (None, cn1) \<Rightarrow>
                    (case parseResponse key cn1 of
                       (Inl err, cn2) \<Rightarrow>
                         (case switchErr s serverIndex cn2 (Some err) log1 of
                            Panics m \<Rightarrow> (Panics m, log1)
                          | Returns log2 \<Rightarrow> (Returns (Inl err), log2))
                     | (Inr (hdr, k, extras, val), cn2) \<Rightarrow>
                         (case switchErr s serverIndex cn2 None log1 of
                            Panics m \<Rightarrow> (Panics m, log1)
                          | Returns log2 \<Rightarrow>
                              (case mkItem (if key = [] \<and> length k > 0 then bstos k else key)
                                      hdr extras val of
                                 Panics m \<Rightarrow> (Panics m, log2)
                               | Returns item \<Rightarrow> (Returns (Inr item), log2)))))))"

text \<open>
  \<^verbatim>\<open>Client.populateOne\<close> and its three callers. The result is the returned error
  (\<open>None\<close> for \<^verbatim>\<open>nil\<close>), the caller's item and the log.
\<close>

definition populateOne ::
    "ServerList \<Rightarrow> byte \<Rightarrow> Item \<Rightarrow> 64 word \<Rightarrow> event list \<Rightarrow>
     error option outcome \<times> Item \<times> event list" where
  "populateOne s cmd item cas log =
     (let extras = putUint32 (Flags item) @ putUint32 (Expiration item) in
      case PickServerIndex s (Key item) of
        Panics m \<Rightarrow> (Panics m, item, log)
      | Returns (Inl err) \<Rightarrow> (Returns (Some err), item, log)
      | Returns (Inr serverIndex) \<Rightarrow>
          (case GetConnection s serverIndex log of
             (Panics m, log1) \<Rightarrow> (Panics m, item, log1)
           | (Returns (Inl err), log1) \<Rightarrow> (Returns (Some err), item, log1)
           | (Returns (Inr cn), log1) \<Rightarrow>
               (case sendConnCommand cn (Key item) cmd (Value item) cas extras of
                  (Some err, cn1) \<Rightarrow>
                    (case CloseConnection s serverIndex cn1 log1 of
                       Panics m \<Rightarrow> (Panics m, item, log1)
                     | Returns log2 \<Rightarrow> (Returns (Some err), item, log2))
                | (None, cn1) \<Rightarrow>
                    (case parseResponse (Key item) cn1 of
                       (Inl err, cn2) \<Rightarrow>
                         (case switchErr s serverIndex cn2 (Some err) log1 of
                            Panics m \<Rightarrow> (Panics m, item, log1)
                          | Returns log2 \<Rightarrow> (Returns (Some err), item, log2))
                     | (Inr (hdr, k, ex, val), cn2) \<Rightarrow>
                         (case PutConnection s serverIndex cn2 log1 of
                            Panics m \<Rightarrow> (Panics m, item, log1)
                          | Returns log2 \<Rightarrow>
                              (Returns None, item\<lparr>casid := bUint64 (subslice hdr 16 24)\<rparr>, log2))))))"

definition Set ::
    "ServerList \<Rightarrow> Item \<Rightarrow> event list \<Rightarrow> error option outcome \<times> Item \<times> event list" where
  "Set s item log = populateOne s cmdSet item 0 log"

definition Add ::
    "ServerList \<Rightarrow> Item \<Rightarrow> event list \<Rightarrow> error option outcome \<times> Item \<times> event list" where
  "Add s item log = populateOne s cmdAdd item 0 log"

definition CompareAndSwap ::
    "ServerList \<Rightarrow> Item \<Rightarrow> event list \<Rightarrow> error option outcome \<times> Item \<times> event list" where
  "CompareAndSwap s item log = populateOne s cmdSet item (casid item) log"

text \<open>\<^verbatim>\<open>Client.Delete\<close>.\<close>

definition Delete ::
    "ServerList \<Rightarrow> string \<Rightarrow> event list \<Rightarrow> error option outcome \<times> event list" where
  "Delete s key log =
     (case PickServerIndex s key of
        Panics m \<Rightarrow> (Panics m, log)
      | Returns (Inl err) \<Rightarrow> (Returns (Some err), log)
      | Returns (Inr serverIndex) \<Rightarrow>
          (case GetConnection s serverIndex log of
             (Panics m, log1) \<Rightarrow> (Panics m, log1)
           | (Returns (Inl err), log1) \<Rightarrow> (Returns (Some err), log1)
           | (Returns (Inr cn), log1) \<Rightarrow>
               (case sendConnCommand cn key cmdDelete [] 0 [] of
                  (Some err, cn1) \<Rightarrow>
                    (case CloseConnection s serverIndex cn1 log1 of
                       Panics m \<Rightarrow> (Panics m, log1)
                     | Returns log2 \<Rightarrow> (Returns (Some err), log2))
                | (None, cn1) \<Rightarrow>
                    (case parseResponse key cn1 of
                       (res, cn2) \<Rightarrow>
                         let err = (case res of Inl e \<Rightarrow> Some e | Inr r \<Rightarrow> None) in
                         (case switchErr s serverIndex cn2 err log1 of
                            Panics m \<Rightarrow> (Panics m, log1)
                          | Returns log2 \<Rightarrow> (Returns err, log2))))))"

text \<open>
  \<^verbatim>\<open>Client.incrDecr\<close>, behind \<^verbatim>\<open>Increment\<close> and \<^verbatim>\<open>Decrement\<close>. The extras are 20
  bytes: the delta, eight zero bytes, and four bytes \<open>0xff\<close>. \<^verbatim>\<open>bUint64(value)\<close>
  panics on a value shorter than eight bytes.
\<close>

definition incrDecr ::
    "ServerList \<Rightarrow> byte \<Rightarrow> string \<Rightarrow> 64 word \<Rightarrow> event list \<Rightarrow>
     (error + 64 word) outcome \<times> event list" where
  "incrDecr s cmd key delta log =
     (let extras = putUint64 delta @ replicate 8 0 @ replicate 4 0xff in
      case PickServerIndex s key of
        Panics m \<Rightarrow> (Panics m, log)
      | Returns (Inl err) \<Rightarrow> (Returns (Inl err), log)
      | Returns (Inr serverIndex) \<Rightarrow>
          (case GetConnection s serverIndex log of
             (Panics m, log1) \<Rightarrow> (Panics m, log1)
           | (Returns (Inl err), log1) \<Rightarrow> (Returns (Inl err), log1)
           | (Returns (Inr cn), log1) \<Rightarrow>
               (case sendConnCommand cn key cmd [] 0 extras of
                  (Some err, cn1) \<Rightarrow>
                    (case CloseConnection s serverIndex cn1 log1 of
                       Panics m \<Rightarrow> (Panics m, log1)
                     | Returns log2 \<Rightarrow> (Returns (Inl err), log2))
                | (None, cn1) \<Rightarrow>
                    (case parseResponse key cn1 of
                       (Inl err, cn2) \<Rightarrow>
                         (case switchErr s serverIndex cn2 (Some err) log1 of
                            Panics m \<Rightarrow> (Panics m, log1)
                          | Returns log2 \<Rightarrow> (Returns (Inl err), log2))
                     | (Inr (hdr, k, ex, val), cn2) \<Rightarrow>
                         (case switchErr s serverIndex cn2 None log1 of
                            Panics m \<Rightarrow> (Panics m, log1)
                          | Returns log2 \<Rightarrow>
                              if length val < 8 then (Panics ''index out of range'', log2)
                              else (Returns (Inr (bUint64 val)), log2))))))"

definition Increment ::
    "ServerList \<Rightarrow> string \<Rightarrow> 64 word \<Rightarrow> event list \<Rightarrow> (error + 64 word) outcome \<times> event list" where
  "Increment s key delta log = incrDecr s cmdIncr key delta log"

definition Decrement ::
    "ServerList \<Rightarrow> string \<Rightarrow> 64 word \<Rightarrow> event list \<Rightarrow> (error + 64 word) outcome \<times> event list" where
  "Decrement s key delta log = incrDecr s cmdDecr key delta log"

text \<open>
  \<^verbatim>\<open>Client.GetMulti\<close>. \<^verbatim>\<open>keyMap\<close> groups the keys by shard; it is an association
  list in the order in which the shards first occur (Go leaves the iteration
  order of a map open). Each shard's goroutine is \<open>shardTask\<close>: it works on its
  own connection and sends its items on its own channel, so the tasks are run one
  after the other here, and the items of a task are the list of what it sent.
\<close>

fun groupKeys ::
    "ServerList \<Rightarrow> string list \<Rightarrow> (32 word \<times> string list) list \<Rightarrow>
     (error + (32 word \<times> string list) list) outcome" where
  "groupKeys s [] keyMap = Returns (Inr keyMap)"
| "groupKeys s (key # keys) keyMap =
     (case PickServerIndex s key of
        Panics m \<Rightarrow> Panics m
      | Returns (Inl err) \<Rightarrow> Returns (Inl err)
      | Returns (Inr serverIndex) \<Rightarrow>
          groupKeys s keys
            (AList.update serverIndex
               ((case map_of keyMap serverIndex of None \<Rightarrow> [] | Some ks \<Rightarrow> ks) @ [key]) keyMap))"

text \<open>The loop sending one \<^verbatim>\<open>GetKQ\<close> per key; it stops at the first failed send.\<close>

fun sendKeys :: "conn \<Rightarrow> string list \<Rightarrow> error option \<times> conn" where
  "sendKeys cn [] = (None, cn)"
| "sendKeys cn (k # keys) =
     (case sendConnCommand cn k cmdGetKQ [] 0 [] of
        (Some err, cn1) \<Rightarrow> (Some err, cn1)
      | (None, cn1) \<Rightarrow> sendKeys cn1 keys)"

text \<open>
  The loop reading the responses: it breaks at the first error and at the first
  response with an empty key, and sends an item for every other response. A
  successful \<^verbatim>\<open>parseResponse\<close> consumes at least the 24 bytes of a header, which
  is why the loop ends on a finite stream.
\<close>

function readItems :: "conn \<Rightarrow> Item list outcome \<times> conn" where
  "readItems cn =
     (case parseResponse [] cn of
        (Inl err, cn1) \<Rightarrow> (Returns [], cn1)
      | (Inr (hdr, k, extras, val), cn1) \<Rightarrow>
          if length k = 0 then (Returns [], cn1)
          else
            (case mkItem (bstos k) hdr extras val of
               Panics m \<Rightarrow> (Panics m, cn1)
             | Returns item \<Rightarrow>
                 (case readItems cn1 of
                    (Panics m, cn2) \<Rightarrow> (Panics m, cn2)
                  | (Returns items, cn2) \<Rightarrow> (Returns (item # items), cn2))))"
  by pat_completeness auto
termination
proof (relation "measure (\<lambda>cn. length (rd cn))")
  show "wf (measure (\<lambda>cn. length (rd cn)))" by simp
next
  fix cn :: conn and x1 cn1 x2 hdr x3 k x4 extras val x5
  assume "(x1, cn1) = parseResponse [] cn"
  then have "parseResponse [] cn = (x1, cn1)" by simp
  moreover assume "x1 = Inr x2"
  ultimately have "length (rd cn1) < length (rd cn)"
    by (auto simp: parseResponse_def readAtLeast_def CopyN_Discard_def Let_def
             split: if_splits prod.splits sum.splits option.splits)
  then show "(cn1, cn) \<in> measure (\<lambda>cn. length (rd cn))" by simp
qed

definition shardTask ::
    "ServerList \<Rightarrow> 32 word \<Rightarrow> string list \<Rightarrow> event list \<Rightarrow> Item list outcome \<times> event list" where
  "shardTask s serverIndex keys log =
     (case GetConnection s serverIndex log of
        (Panics m, log1) \<Rightarrow> (Panics m, log1)
      | (Returns (Inl err), log1) \<Rightarrow> (Returns [], log1)
      | (Returns (Inr cn), log1) \<Rightarrow>
          (case sendKeys cn keys of
             (Some err, cn1) \<Rightarrow>
               (case switchErr s serverIndex cn1 (Some err) log1 of
                  Panics m \<Rightarrow> (Panics m, log1)
                | Returns log2 \<Rightarrow> (Returns [], log2))
           | (None, cn1) \<Rightarrow>
               (case sendConnCommand cn1 [] cmdNoop [] 0 [] of
                  (Some err, cn2) \<Rightarrow>
                    (case switchErr s serverIndex cn2 (Some err) log1 of
                       Panics m \<Rightarrow> (Panics m, log1)
                     | Returns log2 \<Rightarrow> (Returns [], log2))
                | (None, cn2) \<Rightarrow>
                    (case readItems cn2 of (res, cn3) \<Rightarrow> (res, log1)))))"

fun runTasks ::
    "ServerList \<Rightarrow> (32 word \<times> string list) list \<Rightarrow> event list \<Rightarrow>
     Item list outcome \<times> event list" where
  "runTasks s [] log = (Returns [], log)"
| "runTasks s ((addr, keys) # keyMap) log =
     (case shardTask s addr keys log of
        (Panics m, log1) \<Rightarrow> (Panics m, log1)
      | (Returns items, log1) \<Rightarrow>
          (case runTasks s keyMap log1 of
             (Panics m, log2) \<Rightarrow> (Panics m, log2)
           | (Returns rest, log2) \<Rightarrow> (Returns (items @ rest), log2)))"

text \<open>The merge \<^verbatim>\<open>m[item.Key] = item\<close> over the items of all channels, in order.\<close>

definition mergeItems :: "Item list \<Rightarrow> (string \<rightharpoonup> Item)" where
  "mergeItems items = foldl (\<lambda>m item. m(Key item \<mapsto> item)) Map.empty items"

definition GetMulti ::
    "ServerList \<Rightarrow> string list \<Rightarrow> event list \<Rightarrow>
     (error + (string \<rightharpoonup> Item)) outcome \<times> event list" where
  "GetMulti s keys log =
     (case groupKeys s keys [] of
        Panics m \<Rightarrow> (Panics m, log)
      | Returns (Inl err) \<Rightarrow> (Returns (Inl err), log)
      | Returns (Inr keyMap) \<Rightarrow>
          (case runTasks s keyMap log of
             (Panics m, log1) \<Rightarrow> (Panics m, log1)
           | (Returns items, log1) \<Rightarrow> (Returns (Inr (mergeItems items)), log1)))"

text \<open>
  The \<^verbatim>\<open>Error()\<close> text of an error value: the messages of the sentinels, the
  method \<^verbatim>\<open>response.Error\<close> for a status, and the message an outside error
  carries.
\<close>

definition Error :: "error \<Rightarrow> string" where
  "Error e =
     (case e of
        ErrCacheMiss \<Rightarrow> ''memcache: cache miss''
      | ErrCASConflict \<Rightarrow> ''memcache: compare-and-swap conflict''
      | ErrNotStored \<Rightarrow> ''memcache: item not stored''
      | ErrServerError \<Rightarrow> ''memcache: server error''
      | ErrNoStats \<Rightarrow> ''memcache: no statistics available''
      | ErrMalformedKey \<Rightarrow> ''malformed: key is too long or contains invalid characters''
      | ErrNoServers \<Rightarrow> ''memcache: no servers configured or available''
      | ErrBadMagic \<Rightarrow> ''memcache: bad magic number in response''
      | ErrBadIncrDec \<Rightarrow> ''memcache: incr or decr on non-numeric value''
      | Resp r \<Rightarrow>
          (if r = 0 then ''Ok''
           else if r = 1 then ''key not found''
           else if r = 2 then ''key already exists''
           else if r = 3 then ''value too large''
           else if r = 4 then ''invalid arguments''
           else if r = 5 then ''item not stored''
           else if r = 6 then ''incr/decr on non-numeric value''
           else if r = 7 then ''wrong vbucket''
           else if r = 8 then ''auth error''
           else if r = 9 then ''auth continue''
           else [])
      | ErrOther msg \<Rightarrow> msg)"

text \<open>
  \<^verbatim>\<open>Client.Flush\<close>. The loop runs \<^verbatim>\<open>serverIndex\<close> from 0 while it is below
  \<^verbatim>\<open>PoolLen()\<close>, collecting the names and errors of the shards that failed; the
  message is put together afterwards.
\<close>

function Flush_loop ::
    "ServerList \<Rightarrow> byte list \<Rightarrow> 32 word \<Rightarrow> string list \<Rightarrow> error list \<Rightarrow> event list \<Rightarrow>
     (string list \<times> error list) outcome \<times> event list" where
  "Flush_loop s extras serverIndex failed errs log =
     (if \<not> serverIndex < poolLen s then (Returns (failed, errs), log)
      else
        (case GetConnection s serverIndex log of
           (Panics m, log1) \<Rightarrow> (Panics m, log1)
         | (Returns (Inl err), log1) \<Rightarrow>
             (case Name s serverIndex of
                Panics m \<Rightarrow> (Panics m, log1)
              | Returns name \<Rightarrow>
                  Flush_loop s extras (serverIndex + 1) (failed @ [name]) (errs @ [err]) log1)
         | (Returns (Inr cn), log1) \<Rightarrow>
             (case (case sendConnCommand cn [] cmdFlush [] 0 extras of
                      (Some err, cn1) \<Rightarrow> (Some err, cn1)
                    | (None, cn1) \<Rightarrow>
                        (case parseResponse [] cn1 of
                           (Inl err, cn2) \<Rightarrow> (Some err, cn2)
                         | (Inr r, cn2) \<Rightarrow> (None, cn2))) of
                (None, cn3) \<Rightarrow>
                  (case switchErr s serverIndex cn3 None log1 of
                     Panics m \<Rightarrow> (Panics m, log1)
                   | Returns log2 \<Rightarrow> Flush_loop s extras (serverIndex + 1) failed errs log2)
              | (Some err, cn3) \<Rightarrow>
                  (case Name s serverIndex of
                     Panics m \<Rightarrow> (Panics m, log1)
                   | Returns name \<Rightarrow>
                       (case switchErr s serverIndex cn3 (Some err) log1 of
                          Panics m \<Rightarrow> (Panics m, log1)
                        | Returns log2 \<Rightarrow>
                            Flush_loop s extras (serverIndex + 1) (failed @ [name])
                              (errs @ [err]) log2)))))"
  by pat_completeness auto
termination
proof -
  have step: "unat n - Suc (unat i) mod 4294967296 < unat n - unat i"
    if "unat i < unat n" for i n :: "32 word"
  proof -
    have "unat n < 2 ^ 32" using unsigned_less [of n] by simp
    with that have "Suc (unat i) mod 4294967296 = Suc (unat i)" by simp
    with that show ?thesis by simp
  qed
  show ?thesis
    by (relation "measure (\<lambda>(s, extras, serverIndex, failed, errs, log).
                             unat (poolLen s) - unat serverIndex)")
       (auto simp: word_less_nat_alt unat_word_ariths intro: step)
qed

text \<open>
  The text after \<^verbatim>\<open>"failed to flush some servers: "\<close>: for each failed shard its
  name, \<^verbatim>\<open>": "\<close> and the text of its error, the entries separated by \<^verbatim>\<open>", "\<close>.
\<close>

fun flushMessage :: "nat \<Rightarrow> string list \<Rightarrow> error list \<Rightarrow> string" where
  "flushMessage ii (addr # failed) (err # errs) =
     (if ii > 0 then '', '' else []) @ addr @ '': '' @ Error err
       @ flushMessage (ii + 1) failed errs"
| "flushMessage ii failed errs = []"

definition Flush :: "ServerList \<Rightarrow> int \<Rightarrow> event list \<Rightarrow> error option outcome \<times> event list" where
  "Flush s expiration log =
     (let extras = (if expiration > 0 then putUint32 (of_int expiration) else []) in
      case Flush_loop s extras 0 [] [] log of
        (Panics m, log1) \<Rightarrow> (Panics m, log1)
      | (Returns (failed, errs), log1) \<Rightarrow>
          if length failed > 0 then
            (Returns (Some (ErrOther (''failed to flush some servers: ''
                                        @ flushMessage 0 failed errs))), log1)
          else (Returns None, log1))"

section \<open>Properties\<close>

lemma legalKey_loop_iff:
  "legalKey_loop cs \<longleftrightarrow> (\<forall>c \<in> set cs. 0x20 < (of_char c :: nat) \<and> (of_char c :: nat) \<le> 0x7e)"
  by (induction cs) auto

text \<open>
  Claim C8. The key validator accepts exactly the keys of at most 250 bytes all of
  whose bytes lie in 0x21..0x7e (printable ASCII without space and control
  characters): a key with a byte \<open>\<le> 0x20\<close> or \<open>> 0x7e\<close>, or longer than 250 bytes,
  is rejected.
\<close>

theorem legalKey_iff:
  "legalKey key \<longleftrightarrow>
     length key \<le> 250 \<and> (\<forall>c \<in> set key. 0x20 < (of_char c :: nat) \<and> (of_char c :: nat) \<le> 0x7e)"
  unfolding legalKey_def legalKey_loop_iff by auto

theorem legalKey_iff_witness:
  "legalKey ''user:42'' \<and> \<not> legalKey ''a b'' \<and> \<not> legalKey (replicate 251 CHR ''a'')"
  using legalKey_iff [of "''user:42''"] legalKey_iff [of "''a b''"]
    legalKey_iff [of "replicate 251 CHR ''a''"]
  by simp

subsection \<open>Shard selection\<close>

lemma ChecksumIEEE_a: "ChecksumIEEE (stobs ''a'') = 0xE8B7BE43"
  by code_simp

text \<open>
  Claim C5. Shard selection fails with \<^verbatim>\<open>ErrNoServers\<close> exactly when no shard is
  configured, and otherwise returns the CRC-32 (IEEE) checksum of the bytes of the
  key modulo the number of shards. The number of shards is taken below \<open>2 ^ 32\<close>,
  where Go's \<^verbatim>\<open>uint32(len(s.pool))\<close> is the number itself.
\<close>

theorem PickServerIndex_crc32:
  assumes "length (pool s) < 2 ^ 32"
  shows "(PickServerIndex s key = Returns (Inl ErrNoServers) \<longleftrightarrow> length (pool s) = 0) \<and>
         (PickServerIndex s key =
            (if length (pool s) = 0 then Returns (Inl ErrNoServers)
             else Returns (Inr (of_nat (unat (ChecksumIEEE (stobs key)) mod length (pool s))))))"
proof (cases "length (pool s) = 0")
  case True
  then show ?thesis by (simp add: PickServerIndex_def)
next
  case False
  with assms have n: "unat (of_nat (length (pool s)) :: 32 word) = length (pool s)"
    by (simp add: unat_of_nat)
  with False have nz: "(of_nat (length (pool s)) :: 32 word) \<noteq> 0"
    by (metis unat_0)
  have "ChecksumIEEE (stobs key) mod of_nat (length (pool s))
          = (of_nat (unat (ChecksumIEEE (stobs key)) mod length (pool s)) :: 32 word)"
  proof (rule word_unat_eq_iff [THEN iffD2])
    have "unat (ChecksumIEEE (stobs key)) mod length (pool s) < length (pool s)"
      using False by simp
    with assms have "unat (ChecksumIEEE (stobs key)) mod length (pool s) < 2 ^ 32"
      by linarith
    then have "unat (of_nat (unat (ChecksumIEEE (stobs key)) mod length (pool s)) :: 32 word)
                 = unat (ChecksumIEEE (stobs key)) mod length (pool s)"
      by (simp add: unat_of_nat)
    then show "unat (ChecksumIEEE (stobs key) mod of_nat (length (pool s)))
                 = unat (of_nat (unat (ChecksumIEEE (stobs key)) mod length (pool s)) :: 32 word)"
      by (simp only: unat_mod n)
  qed
  with False nz show ?thesis
    by (simp add: PickServerIndex_def Let_def)
qed

theorem PickServerIndex_crc32_witness:
  "PickServerIndex \<lparr>pool = [Inl ErrServerError, Inl ErrServerError],
                     poolLen = 2, serversNames = []\<rparr> ''a'' = Returns (Inr 1)
   \<and> PickServerIndex \<lparr>pool = [], poolLen = 0, serversNames = []\<rparr> ''a''
        = Returns (Inl ErrNoServers)"
  using PickServerIndex_crc32 [of "\<lparr>pool = [Inl ErrServerError, Inl ErrServerError],
                     poolLen = 2, serversNames = []\<rparr>" "''a''"]
    PickServerIndex_crc32 [of "\<lparr>pool = [], poolLen = 0, serversNames = []\<rparr>" "''a''"]
  by (simp add: ChecksumIEEE_a numeral_2_eq_2 [symmetric])

subsection \<open>Byte order\<close>

lemma unat_ucast_byte: "unat (ucast (w :: 'a::len word) :: byte) = unat w mod 256"
  by (simp only: unsigned_ucast_eq take_bit_eq_mod) simp

lemma unat_drop_bit_div: "unat (drop_bit n (w :: 'a::len word)) = unat w div 2 ^ n"
  unfolding unat_drop_bit_eq by (rule drop_bit_eq_div)

lemma div_step: "(x::nat) div (a * 256) * 256 + x div a mod 256 = x div a"
  by (simp add: div_mult2_eq)

lemma be_nat4:
  assumes "(x::nat) < 2 ^ 32"
  shows "((x div 2 ^ 24 mod 256 * 256 + x div 2 ^ 16 mod 256) * 256 + x div 2 ^ 8 mod 256) * 256
           + x mod 256 = x"
proof -
  have t: "x div 2 ^ 24 mod 256 = x div 2 ^ 24"
    using assms by (simp add: less_mult_imp_div_less)
  have a: "x div 2 ^ 24 * 256 + x div 2 ^ 16 mod 256 = x div 2 ^ 16"
    using div_step [of x "2 ^ 16"] by simp
  have b: "x div 2 ^ 16 * 256 + x div 2 ^ 8 mod 256 = x div 2 ^ 8"
    using div_step [of x "2 ^ 8"] by simp
  have c: "x div 2 ^ 8 * 256 + x mod 256 = x"
    by simp
  show ?thesis
    by (simp only: t a b c)
qed

lemma be_nat_putUint32: "be_nat (putUint32 v) = unat v"
proof -
  have "unat v < 2 ^ 32" using unsigned_less [of v] by simp
  from be_nat4 [OF this] show ?thesis
    unfolding putUint32_def be_nat_def foldl.simps unat_ucast_byte unat_drop_bit_div
    by (simp only: mult_0 add_0)
qed

lemma be_nat_putUint16: "be_nat (putUint16 v) = unat v"
proof -
  have "unat v < 2 ^ 16" using unsigned_less [of v] by simp
  then have t: "unat v div 2 ^ 8 mod 256 = unat v div 2 ^ 8"
    by (simp add: less_mult_imp_div_less)
  have c: "unat v div 2 ^ 8 * 256 + unat v mod 256 = unat v"
    by simp
  show ?thesis
    unfolding putUint16_def be_nat_def foldl.simps unat_ucast_byte unat_drop_bit_div
    by (simp only: mult_0 add_0 t c)
qed

lemma be_nat8:
  assumes "(x::nat) < 2 ^ 64"
  shows "((((((x div 2 ^ 56 mod 256 * 256 + x div 2 ^ 48 mod 256) * 256
           + x div 2 ^ 40 mod 256) * 256 + x div 2 ^ 32 mod 256) * 256
           + x div 2 ^ 24 mod 256) * 256 + x div 2 ^ 16 mod 256) * 256 + x div 2 ^ 8 mod 256) * 256
           + x mod 256 = x"
proof -
  have t: "x div 2 ^ 56 mod 256 = x div 2 ^ 56"
    using assms by (simp add: less_mult_imp_div_less)
  have a: "x div 2 ^ 56 * 256 + x div 2 ^ 48 mod 256 = x div 2 ^ 48"
    using div_step [of x "2 ^ 48"] by simp
  have b: "x div 2 ^ 48 * 256 + x div 2 ^ 40 mod 256 = x div 2 ^ 40"
    using div_step [of x "2 ^ 40"] by simp
  have c: "x div 2 ^ 40 * 256 + x div 2 ^ 32 mod 256 = x div 2 ^ 32"
    using div_step [of x "2 ^ 32"] by simp
  have d: "x div 2 ^ 32 * 256 + x div 2 ^ 24 mod 256 = x div 2 ^ 24"
    using div_step [of x "2 ^ 24"] by simp
  have e: "x div 2 ^ 24 * 256 + x div 2 ^ 16 mod 256 = x div 2 ^ 16"
    using div_step [of x "2 ^ 16"] by simp
  have f: "x div 2 ^ 16 * 256 + x div 2 ^ 8 mod 256 = x div 2 ^ 8"
    using div_step [of x "2 ^ 8"] by simp
  have g: "x div 2 ^ 8 * 256 + x mod 256 = x"
    by simp
  show ?thesis
    by (simp only: t a b c d e f g)
qed

lemma be_nat_putUint64: "be_nat (putUint64 v) = unat v"
proof -
  have "unat v < 2 ^ 64" using unsigned_less [of v] by simp
  from be_nat8 [OF this] show ?thesis
    unfolding putUint64_def be_nat_def foldl.simps unat_ucast_byte unat_drop_bit_div
    by (simp only: mult_0 add_0)
qed

lemma lane0:
  "bit (ucast (ucast (v :: 'a::len word) :: byte) :: 'a word) n \<longleftrightarrow> n < 8 \<and> bit v n"
  by (auto simp: bit_simps dest: bit_imp_le_length)

lemma lane:
  "bit (push_bit k (ucast (ucast (drop_bit k (v :: 'a::len word)) :: byte)) :: 'a word) n
     \<longleftrightarrow> k \<le> n \<and> n < k + 8 \<and> bit v n"
  by (auto simp: bit_simps dest: bit_imp_le_length)

lemma bUint16_putUint16: "bUint16 (putUint16 v) = v"
proof (rule bit_word_eqI)
  fix n assume "n < LENGTH(16)"
  then have n: "n < 16" by simp
  have "bit (bUint16 (putUint16 v)) n \<longleftrightarrow> (n < 8 \<and> bit v n) \<or> (8 \<le> n \<and> n < 8 + 8 \<and> bit v n)"
    unfolding bUint16_def putUint16_def
    by (simp add: bit_or_iff lane0 lane del: bit_push_bit_iff bit_ucast_iff)
  also have "\<dots> \<longleftrightarrow> bit v n" using n by auto
  finally show "bit (bUint16 (putUint16 v)) n \<longleftrightarrow> bit v n" .
qed

lemma bUint32_putUint32: "bUint32 (putUint32 v) = v"
proof (rule bit_word_eqI)
  fix n assume "n < LENGTH(32)"
  then have n: "n < 32" by simp
  have "bit (bUint32 (putUint32 v)) n \<longleftrightarrow>
      (n < 8 \<and> bit v n) \<or> (8 \<le> n \<and> n < 8 + 8 \<and> bit v n) \<or> (16 \<le> n \<and> n < 16 + 8 \<and> bit v n)
      \<or> (24 \<le> n \<and> n < 24 + 8 \<and> bit v n)"
    unfolding bUint32_def putUint32_def
    by (simp add: bit_or_iff lane0 lane del: bit_push_bit_iff bit_ucast_iff)
  also have "\<dots> \<longleftrightarrow> bit v n" using n by auto
  finally show "bit (bUint32 (putUint32 v)) n \<longleftrightarrow> bit v n" .
qed

lemma bUint64_putUint64: "bUint64 (putUint64 v) = v"
proof (rule bit_word_eqI)
  fix n assume "n < LENGTH(64)"
  then have n: "n < 64" by simp
  have "bit (bUint64 (putUint64 v)) n \<longleftrightarrow>
      (n < 8 \<and> bit v n) \<or> (8 \<le> n \<and> n < 8 + 8 \<and> bit v n) \<or> (16 \<le> n \<and> n < 16 + 8 \<and> bit v n)
      \<or> (24 \<le> n \<and> n < 24 + 8 \<and> bit v n) \<or> (32 \<le> n \<and> n < 32 + 8 \<and> bit v n)
      \<or> (40 \<le> n \<and> n < 40 + 8 \<and> bit v n) \<or> (48 \<le> n \<and> n < 48 + 8 \<and> bit v n)
      \<or> (56 \<le> n \<and> n < 56 + 8 \<and> bit v n)"
    unfolding bUint64_def putUint64_def
    by (simp add: bit_or_iff lane0 lane del: bit_push_bit_iff bit_ucast_iff)
  also have "\<dots> \<longleftrightarrow> bit v n" using n by auto
  finally show "bit (bUint64 (putUint64 v)) n \<longleftrightarrow> bit v n" .
qed

subsection \<open>Evaluation\<close>

lemmas codec_defs = sendConnCommand_def reqBuf_def Write_def parseResponse_def readAtLeast_def
  CopyN_Discard_def subslice_def bUint16_def bUint32_def bUint64_def putUint16_def putUint32_def
  putUint64_def asError_def respOk_def respKeyNotFound_def respKeyExists_def respInvalidArgs_def
  respItemNotStored_def respInvalidIncrDecr_def reqMagic_def respMagic_def stobs_def Let_def

lemmas pool_defs = PickServerIndex_def GetConnection_def PutConnection_def CloseConnection_def
  switchErr_def

subsection \<open>Writes and the caller's item\<close>

lemma CompareAndSwap_KeyExists:
  "fst (CompareAndSwap
     \<lparr>pool = [Inr \<lparr>rd = [0x81, 0x01, 0,0, 0, 0, 0,2, 0,0,0,0, 0,0,0,0, 0,0,0,0,0,0,0,0], wr = [], wok = 2\<rparr>],
      poolLen = 1, serversNames = [[], ''localhost:11211'']\<rparr>
     \<lparr>Key = ''k'', Value = [0x31], Flags = 0, Expiration = 0, casid = 7\<rparr> [])
   = Returns (Some ErrNotStored)"
  by (simp add: CompareAndSwap_def populateOne_def pool_defs cmdSet_def codec_defs)

lemma populateOne_item:
  "fst (snd (populateOne s cmd item cas log)) =
     (if fst (populateOne s cmd item cas log) = Returns None
      then item\<lparr>casid := casid (fst (snd (populateOne s cmd item cas log)))\<rparr>
      else item)"
  unfolding populateOne_def Let_def
  by (simp split: outcome.split sum.split option.split prod.split)

lemma populateOne_casid:
  assumes "fst (populateOne s cmd item cas log) = Returns None"
  shows "\<exists>cn hdr k ex val cn'. parseResponse (Key item) cn = (Inr (hdr, k, ex, val), cn')
           \<and> fst (snd (populateOne s cmd item cas log)) = item\<lparr>casid := bUint64 (subslice hdr 16 24)\<rparr>"
  using assms unfolding populateOne_def Let_def
  apply (auto split: outcome.splits sum.splits option.splits prod.splits)
  apply blast
  done

text \<open>
  Claim C10. A \<^verbatim>\<open>Set\<close>, \<^verbatim>\<open>Add\<close> or \<^verbatim>\<open>CompareAndSwap\<close> that does not return
  \<^verbatim>\<open>nil\<close> (it returns an error from shard selection, the pool, the write or the
  response, or it panics) leaves the caller's item as it was; one that returns
  \<^verbatim>\<open>nil\<close> changes the cas token and nothing else.
\<close>

theorem write_error_keeps_item:
  "(fst (Set s item log) \<noteq> Returns None \<longrightarrow> fst (snd (Set s item log)) = item) \<and>
   (fst (Add s item log) \<noteq> Returns None \<longrightarrow> fst (snd (Add s item log)) = item) \<and>
   (fst (CompareAndSwap s item log) \<noteq> Returns None
      \<longrightarrow> fst (snd (CompareAndSwap s item log)) = item) \<and>
   (fst (Set s item log) = Returns None
      \<longrightarrow> fst (snd (Set s item log)) = item\<lparr>casid := casid (fst (snd (Set s item log)))\<rparr>) \<and>
   (fst (Add s item log) = Returns None
      \<longrightarrow> fst (snd (Add s item log)) = item\<lparr>casid := casid (fst (snd (Add s item log)))\<rparr>) \<and>
   (fst (CompareAndSwap s item log) = Returns None
      \<longrightarrow> fst (snd (CompareAndSwap s item log))
            = item\<lparr>casid := casid (fst (snd (CompareAndSwap s item log)))\<rparr>)"
  unfolding Set_def Add_def CompareAndSwap_def
  using populateOne_item [of s cmdSet item 0 log] populateOne_item [of s cmdAdd item 0 log]
    populateOne_item [of s cmdSet item "casid item" log]
  by (simp split: if_splits)

theorem write_error_keeps_item_witness:
  "fst (CompareAndSwap
     \<lparr>pool = [Inr \<lparr>rd = [0x81, 0x01, 0,0, 0, 0, 0,2, 0,0,0,0, 0,0,0,0, 0,0,0,0,0,0,0,0], wr = [], wok = 2\<rparr>],
      poolLen = 1, serversNames = [[], ''localhost:11211'']\<rparr>
     \<lparr>Key = ''k'', Value = [0x31], Flags = 0, Expiration = 0, casid = 7\<rparr> [])
     = Returns (Some ErrNotStored) \<and>
   fst (snd (CompareAndSwap
     \<lparr>pool = [Inr \<lparr>rd = [0x81, 0x01, 0,0, 0, 0, 0,2, 0,0,0,0, 0,0,0,0, 0,0,0,0,0,0,0,0], wr = [], wok = 2\<rparr>],
      poolLen = 1, serversNames = [[], ''localhost:11211'']\<rparr>
     \<lparr>Key = ''k'', Value = [0x31], Flags = 0, Expiration = 0, casid = 7\<rparr> []))
     = \<lparr>Key = ''k'', Value = [0x31], Flags = 0, Expiration = 0, casid = 7\<rparr>"
  using CompareAndSwap_KeyExists write_error_keeps_item
    [of "\<lparr>pool = [Inr \<lparr>rd = [0x81, 0x01, 0,0, 0, 0, 0,2, 0,0,0,0, 0,0,0,0, 0,0,0,0,0,0,0,0], wr = [], wok = 2\<rparr>],
      poolLen = 1, serversNames = [[], ''localhost:11211'']\<rparr>"
     "\<lparr>Key = ''k'', Value = [0x31], Flags = 0, Expiration = 0, casid = 7\<rparr>" "[]"]
  by simp

lemma Set_success_example:
  "Set \<lparr>pool = [Inr \<lparr>rd = [0x81, 0x01, 0,0, 0, 0, 0,0, 0,0,0,0, 0,0,0,0, 0,0,0,0,0,0,0,9], wr = [], wok = 2\<rparr>],
      poolLen = 1, serversNames = [[], ''localhost:11211'']\<rparr>
     \<lparr>Key = ''k'', Value = [0x31], Flags = 0, Expiration = 0, casid = 7\<rparr> []
   = (Returns None, \<lparr>Key = ''k'', Value = [0x31], Flags = 0, Expiration = 0, casid = 9\<rparr>,
      [Got 0, Put 0 \<lparr>rd = [], wr = [0x80, 0x01, 0, 1, 8, 0, 0, 0, 0, 0, 0, 10, 0, 0, 0, 0,
                                       0, 0, 0, 0, 0, 0, 0, 0, 0, 0, 0, 0, 0, 0, 0, 0, 0x6b, 0x31], wok = 0\<rparr>])"
  by (simp add: Set_def populateOne_def pool_defs cmdSet_def codec_defs)

subsection \<open>The request frame\<close>

lemma slice_append: "j \<le> length h \<Longrightarrow> subslice (h @ t) i j = subslice h i j"
  by (simp add: subslice_def)

lemma reqBuf_header:
  "\<exists>h. length h = 24 \<and> reqBuf key cmd val cas extras = h @ extras @ stobs key
       \<and> h ! 0 = reqMagic \<and> h ! 1 = cmd
       \<and> subslice h 2 4 = putUint16 (of_nat (length key))
       \<and> h ! 4 = of_nat (length extras) \<and> h ! 5 = 0 \<and> subslice h 6 8 = [0, 0]
       \<and> subslice h 8 12 = putUint32 (of_nat (length key + length extras + length val))
       \<and> subslice h 12 16 = [0, 0, 0, 0] \<and> subslice h 16 24 = putUint64 cas"
proof -
  let ?h = "[reqMagic, cmd] @ putUint16 (of_nat (length key)) @ [of_nat (length extras), 0, 0, 0]
             @ putUint32 (of_nat (length key + length extras + length val)) @ [0, 0, 0, 0]
             @ putUint64 cas"
  have "reqBuf key cmd val cas extras = ?h @ extras @ stobs key"
    by (simp add: reqBuf_def Let_def stobs_def)
  moreover have "length ?h = 24"
    by (simp add: putUint16_def putUint32_def putUint64_def)
  moreover have "?h ! 0 = reqMagic" "?h ! 1 = cmd" "?h ! 4 = of_nat (length extras)" "?h ! 5 = 0"
    by (simp_all add: putUint16_def)
  moreover have "subslice ?h 2 4 = putUint16 (of_nat (length key))" "subslice ?h 6 8 = [0, 0]"
    "subslice ?h 8 12 = putUint32 (of_nat (length key + length extras + length val))"
    "subslice ?h 12 16 = [0, 0, 0, 0]" "subslice ?h 16 24 = putUint64 cas"
    by (simp_all add: subslice_def putUint16_def putUint32_def putUint64_def)
  ultimately show ?thesis by blast
qed


lemma frame_fields:
  fixes f :: "byte list"
  assumes f: "f = reqBuf key cmd val cas extras @ val"
  shows "length f = 24 + length extras + length key + length val"
    and "f ! 0 = 0x80" and "f ! 1 = cmd"
    and "be_nat (subslice f 2 4) = length key mod 2 ^ 16"
    and "unat (f ! 4) = length extras mod 2 ^ 8"
    and "f ! 5 = 0" and "be_nat (subslice f 6 8) = 0"
    and "be_nat (subslice f 8 12) = (length extras + length key + length val) mod 2 ^ 32"
    and "be_nat (subslice f 12 16) = 0"
    and "be_nat (subslice f 16 24) = unat cas"
    and "drop 24 f = extras @ stobs key @ val"
proof -
  from reqBuf_header [of key cmd val cas extras] obtain h where
    len: "length h = 24" and buf: "reqBuf key cmd val cas extras = h @ extras @ stobs key"
    and h0: "h ! 0 = reqMagic" and h1: "h ! 1 = cmd"
    and h2: "subslice h 2 4 = putUint16 (of_nat (length key))"
    and h4: "h ! 4 = of_nat (length extras)" and h5: "h ! 5 = 0" and h6: "subslice h 6 8 = [0, 0]"
    and h8: "subslice h 8 12 = putUint32 (of_nat (length key + length extras + length val))"
    and h12: "subslice h 12 16 = [0, 0, 0, 0]" and h16: "subslice h 16 24 = putUint64 cas"
    by blast
  have ff: "f = h @ (extras @ stobs key @ val)" using f buf by simp
  show "length f = 24 + length extras + length key + length val"
    using ff len by (simp add: stobs_def)
  show "f ! 0 = 0x80" using ff len h0 by (simp add: nth_append reqMagic_def)
  show "f ! 1 = cmd" using ff len h1 by (simp add: nth_append)
  show "be_nat (subslice f 2 4) = length key mod 2 ^ 16"
    using ff len h2 by (simp add: slice_append be_nat_putUint16 unat_of_nat)
  show "unat (f ! 4) = length extras mod 2 ^ 8"
    using ff len h4 by (simp add: nth_append unat_of_nat)
  show "f ! 5 = 0" using ff len h5 by (simp add: nth_append)
  show "be_nat (subslice f 6 8) = 0"
    using ff len h6 by (simp add: slice_append be_nat_def)
  have "subslice f 8 12 = putUint32 (of_nat (length key + length extras + length val))"
    using ff len h8 by (simp only: slice_append)
  then have "be_nat (subslice f 8 12) = (length key + length extras + length val) mod 2 ^ 32"
    by (simp only: be_nat_putUint32 unat_of_nat) simp
  then show "be_nat (subslice f 8 12) = (length extras + length key + length val) mod 2 ^ 32"
    by (simp only: add.commute [of "length key" "length extras"])
  show "be_nat (subslice f 12 16) = 0"
    using ff len h12 by (simp add: slice_append be_nat_def)
  show "be_nat (subslice f 16 24) = unat cas"
    using ff len h16 by (simp add: slice_append be_nat_putUint64)
  show "drop 24 f = extras @ stobs key @ val"
    using ff len by simp
qed




subsection \<open>Decoding a response\<close>


lemma unat_of_nat16: "n < 2 ^ 16 \<Longrightarrow> unat (of_nat n :: 16 word) = n"
  by (simp add: unat_of_nat)

lemma unat_of_nat32: "n < 2 ^ 32 \<Longrightarrow> unat (of_nat n :: 32 word) = n"
  by (simp add: unat_of_nat)











lemma readAtLeast_ok:
  "n \<le> length (rd cn) \<Longrightarrow> readAtLeast cn n = (Inr (take n (rd cn)), cn\<lparr>rd := drop n (rd cn)\<rparr>)"
  by (simp add: readAtLeast_def)

lemma parseResponse_BadMagic:
  assumes "24 \<le> length (rd cn)" and "rd cn ! 0 \<noteq> 0x81"
  shows "parseResponse rKey cn = (Inl ErrBadMagic, cn\<lparr>rd := drop 24 (rd cn)\<rparr>)"
  using assms by (simp add: parseResponse_def readAtLeast_ok respMagic_def)




subsection \<open>Round trip\<close>

lemma unat_of_char: "unat (of_char c :: byte) = of_char c"
proof -
  have "(of_char c :: byte) = of_nat (of_char c)" by (simp only: of_nat_of_char)
  then have "unat (of_char c :: byte) = (of_char c :: nat) mod 2 ^ 8"
    by (simp only: unat_of_nat) simp
  then show ?thesis by simp
qed

lemma bstos_stobs: "bstos (stobs key) = key"
  by (induction key) (simp_all add: bstos_def stobs_def unat_of_char)

lemma slice_update0: "0 < i \<Longrightarrow> subslice (xs[0 := a]) i j = subslice xs i j"
  by (simp add: subslice_def drop_update_cancel)

lemma unat_of_nat8: "n < 2 ^ 8 \<Longrightarrow> unat (of_nat n :: byte) = n"
  by (simp add: unat_of_nat)

lemma read_or_skip:
  assumes "n \<le> length (rd cn)"
  shows "(if int n > 0 then readAtLeast cn (nat (int n)) else (Inr [], cn))
           = (Inr (take n (rd cn)), cn\<lparr>rd := drop n (rd cn)\<rparr>)"
  using assms by (simp add: readAtLeast_def)

lemma parseResponse_Ok:
  assumes hdr: "length h = 24" "h ! 0 = respMagic" "subslice h 6 8 = [0, 0]"
    and el: "unat (h ! 4) = length ex"
    and kl: "unat (bUint16 (subslice h 2 4)) = length k"
    and tl: "unat (bUint32 (subslice h 8 12)) = length ex + length k + length v"
  shows "parseResponse rKey \<lparr>rd = h @ ex @ k @ v @ rest, wr = w, wok = n\<rparr>
           = (Inr (h, k, ex, v), \<lparr>rd = rest, wr = w, wok = n\<rparr>)"
proof -
  have st: "bUint16 [0, 0] = respOk" by (simp add: bUint16_def respOk_def)
  have vl: "int (length ex + length k + length v) - int (length ex) - int (length k) = int (length v)"
    by simp
  show ?thesis
    unfolding parseResponse_def
    using hdr(1,2)
    by (simp add: readAtLeast_ok Let_def hdr(3) st el kl tl vl read_or_skip del: of_nat_add)
qed

lemma parseResponse_request:
  "parseResponse rKey \<lparr>rd = reqBuf key cmd val cas extras @ val, wr = w, wok = n\<rparr>
     = (Inl ErrBadMagic, \<lparr>rd = drop 24 (reqBuf key cmd val cas extras @ val), wr = w, wok = n\<rparr>)"
proof -
  have "length (reqBuf key cmd val cas extras @ val)
          = 24 + length extras + length key + length val"
    by (rule frame_fields(1) [OF refl])
  then have "24 \<le> length (rd \<lparr>rd = reqBuf key cmd val cas extras @ val, wr = w, wok = n\<rparr>)"
    by (simp only: conn.simps)
  moreover have "(reqBuf key cmd val cas extras @ val) ! 0 = 0x80"
    by (rule frame_fields(2) [OF refl])
  then have "rd \<lparr>rd = reqBuf key cmd val cas extras @ val, wr = w, wok = n\<rparr> ! 0 \<noteq> 0x81"
    by (simp only: conn.simps) simp
  ultimately show ?thesis
    using parseResponse_BadMagic [of "\<lparr>rd = reqBuf key cmd val cas extras @ val, wr = w, wok = n\<rparr>" rKey]
    by simp
qed

text \<open>
  Claim C9, amended. The client has one decoder, \<^verbatim>\<open>parseResponse\<close>, and it rejects
  every encoded request with \<^verbatim>\<open>ErrBadMagic\<close> (lemma \<open>parseResponse_request\<close>): a
  request starts with 0x80. For the same frame under the response magic 0x81, with
  a valid key, fewer than \<open>2 ^ 8\<close> bytes of extras and a body of fewer than
  \<open>2 ^ 32\<close> bytes, decoding returns the key, the extras and the value of the
  request, and encoding these again, with the opcode of header byte 1 and the cas
  of header bytes 16-23, gives the original frame.
\<close>

theorem request_round_trip:
  assumes key: "legalKey key" and ex: "length extras < 2 ^ 8"
    and tot: "length key + length extras + length val < 2 ^ 32"
  shows "\<exists>hdr k ex v.
           parseResponse rKey \<lparr>rd = (reqBuf key cmd val cas extras @ val)[0 := respMagic],
                                wr = [], wok = 0\<rparr>
             = (Inr (hdr, k, ex, v), \<lparr>rd = [], wr = [], wok = 0\<rparr>)
           \<and> k = stobs key \<and> ex = extras \<and> v = val
           \<and> reqBuf (bstos k) (hdr ! 1) v (bUint64 (subslice hdr 16 24)) ex @ v
               = reqBuf key cmd val cas extras @ val"
proof -
  from reqBuf_header [of key cmd val cas extras] obtain h where
    len: "length h = 24" and buf: "reqBuf key cmd val cas extras = h @ extras @ stobs key"
    and h1: "h ! 1 = cmd"
    and h2: "subslice h 2 4 = putUint16 (of_nat (length key))"
    and h4: "h ! 4 = of_nat (length extras)" and h6: "subslice h 6 8 = [0, 0]"
    and h8: "subslice h 8 12 = putUint32 (of_nat (length key + length extras + length val))"
    and h16: "subslice h 16 24 = putUint64 cas"
    by blast
  let ?h = "h[0 := respMagic]"
  have klen: "length key < 2 ^ 16"
    using key by (simp add: legalKey_def split: if_splits)
  have f': "(reqBuf key cmd val cas extras @ val)[0 := respMagic]
              = ?h @ extras @ stobs key @ val @ []"
    using len buf by (simp add: list_update_append)
  have a: "length ?h = 24" "?h ! 0 = respMagic" using len by simp_all
  have b: "subslice ?h 6 8 = [0, 0]" using h6 by (simp add: slice_update0)
  have c: "unat (?h ! 4) = length extras"
    using h4 ex len by (simp add: unat_of_nat8)
  have d: "unat (bUint16 (subslice ?h 2 4)) = length (stobs key)"
    using h2 klen by (simp add: slice_update0 bUint16_putUint16 unat_of_nat16 stobs_def)
  have "unat (bUint32 (subslice ?h 8 12)) = length key + length extras + length val"
    using tot unfolding slice_update0 [of 8, simplified] h8 bUint32_putUint32
    by (rule unat_of_nat32)
  then have e: "unat (bUint32 (subslice ?h 8 12)) = length extras + length (stobs key) + length val"
    by (simp add: stobs_def)
  have parse: "parseResponse rKey \<lparr>rd = (reqBuf key cmd val cas extras @ val)[0 := respMagic],
                                wr = [], wok = 0\<rparr>
             = (Inr (?h, stobs key, extras, val), \<lparr>rd = [], wr = [], wok = 0\<rparr>)"
    unfolding f' by (rule parseResponse_Ok [OF a b c d e])
  have "?h ! 1 = cmd" using h1 by simp
  moreover have "bUint64 (subslice ?h 16 24) = cas"
    using h16 by (simp add: slice_update0 bUint64_putUint64)
  ultimately have "reqBuf (bstos (stobs key)) (?h ! 1) val (bUint64 (subslice ?h 16 24)) extras @ val
               = reqBuf key cmd val cas extras @ val"
    by (simp only: bstos_stobs)
  with parse show ?thesis by blast
qed

theorem request_round_trip_counterexample:
  "fst (parseResponse ''k'' \<lparr>rd = reqBuf ''k'' cmdGet [] 0 [] @ [], wr = [], wok = 0\<rparr>)
     = Inl ErrBadMagic"
  using parseResponse_request [of "''k''" "''k''" cmdGet "[]" 0 "[]" "[]" 0]
  by simp

theorem request_round_trip_witness:
  "legalKey ''k'' \<and>
   parseResponse ''k'' \<lparr>rd = (reqBuf ''k'' cmdSet [0x31] 7 [0, 0, 0, 1, 0, 0, 0, 2] @ [0x31])[0 := respMagic],
                          wr = [], wok = 0\<rparr>
     = (Inr ([0x81, 0x01, 0, 1, 8, 0, 0, 0, 0, 0, 0, 10, 0, 0, 0, 0, 0, 0, 0, 0, 0, 0, 0, 7],
             [0x6b], [0, 0, 0, 1, 0, 0, 0, 2], [0x31]),
        \<lparr>rd = [], wr = [], wok = 0\<rparr>) \<and>
   reqBuf (bstos [0x6b]) 0x01 [0x31] 7 [0, 0, 0, 1, 0, 0, 0, 2] @ [0x31]
     = reqBuf ''k'' cmdSet [0x31] 7 [0, 0, 0, 1, 0, 0, 0, 2] @ [0x31]"
  using request_round_trip [of "''k''" "[0, 0, 0, 1, 0, 0, 0, 2]" "[0x31]" "''k''" cmdSet 7]
  by (simp add: legalKey_def cmdSet_def bstos_def codec_defs)

subsection \<open>Connection lifecycle\<close>

lemma bstos_a: "bstos [0x61] = ''a''"
  using bstos_stobs [of "''a''"] by (simp add: stobs_def)

text \<open>
  Claim C1 asks every entry point to return the connection it acquired to the
  pool or to force-close it. \<^verbatim>\<open>GetMulti\<close> does neither once its requests are
  written: on one healthy shard that answers the \<^verbatim>\<open>GetKQ\<close> for key \<open>a\<close> and the
  \<^verbatim>\<open>Noop\<close>, the call returns the item, and the log holds the checkout alone.
  \<^verbatim>\<open>Get\<close> on a like shard puts its connection back (lemma
  \<open>Get_returns_connection\<close>).
\<close>

theorem GetMulti_leaves_connection:
  "GetMulti
     \<lparr>pool = [Inr \<lparr>rd = [0x81, 0x0d, 0, 1, 4, 0, 0, 0, 0, 0, 0, 6, 0, 0, 0, 0, 0, 0, 0, 0, 0, 0, 0, 5,
                         0, 0, 0, 0, 0x61, 0x76,
                         0x81, 0x0a, 0, 0, 0, 0, 0, 0, 0, 0, 0, 0, 0, 0, 0, 0, 0, 0, 0, 0, 0, 0, 0, 0],
                   wr = [], wok = 2\<rparr>],
      poolLen = 1, serversNames = [[], ''localhost:11211'']\<rparr>
     [''a''] []
   = (Returns (Inr [''a'' \<mapsto> \<lparr>Key = ''a'', Value = [0x76], Flags = 0, Expiration = 0, casid = 5\<rparr>]),
      [Got 0])"
  by (simp add: GetMulti_def shardTask_def mergeItems_def mkItem_def bstos_a cmdGetKQ_def
        cmdNoop_def pool_defs codec_defs)

lemma Get_returns_connection:
  "Get
     \<lparr>pool = [Inr \<lparr>rd = [0x81, 0x00, 0, 0, 4, 0, 0, 0, 0, 0, 0, 5, 0, 0, 0, 0, 0, 0, 0, 0, 0, 0, 0, 5,
                         0, 0, 0, 0, 0x76],
                   wr = [], wok = 1\<rparr>],
      poolLen = 1, serversNames = [[], ''localhost:11211'']\<rparr>
     ''a'' []
   = (Returns (Inr \<lparr>Key = ''a'', Value = [0x76], Flags = 0, Expiration = 0, casid = 5\<rparr>),
      [Got 0, Put 0 \<lparr>rd = [], wr = [0x80, 0, 0, 1, 0, 0, 0, 0, 0, 0, 0, 1, 0, 0, 0, 0,
                                      0, 0, 0, 0, 0, 0, 0, 0, 0x61], wok = 0\<rparr>])"
  by (simp add: Get_def mkItem_def cmdGet_def pool_defs codec_defs)

subsection \<open>Flush\<close>

lemma NewServerList_loop_names:
  "NewServerList_loop resolve newPool configs servers names n = Inr s \<Longrightarrow>
     serversNames s = names @ map Server configs \<and> length (pool s) = length servers + length configs"
  by (induction configs arbitrary: servers names n) (auto split: sum.splits)

lemma NewServerList_names:
  assumes "NewServerList resolve newPool configs = Inr s"
  shows "serversNames s = replicate (length configs) [] @ map Server configs"
    and "length (pool s) = length configs"
  using NewServerList_loop_names [OF assms [unfolded NewServerList_def]] by simp_all

lemma Name_empty:
  assumes "NewServerList resolve newPool configs = Inr s" and "unat index < length configs"
  shows "Name s index = Returns []"
  using assms(2) NewServerList_names(1) [OF assms(1)]
  by (simp add: Name_def nth_append)

text \<open>
  Claim C6 asks the combined error of \<^verbatim>\<open>Flush\<close> to list each failed shard's
  configured name. With three shards of which the second cannot be reached, the
  flush is issued to the first and the third, and the combined error has an empty
  name before the error of the second: \<^verbatim>\<open>NewServerList\<close> appends the names after
  \<^verbatim>\<open>len(configs)\<close> empty strings, and \<^verbatim>\<open>Name\<close> reads the empty ones.
\<close>

theorem Flush_error_without_name:
  "(case NewServerList (\<lambda>network address. Inr address)
           (\<lambda>addr config.
              if addr = ''10.0.0.2:11211'' then Inr (Inl (ErrOther ''i/o timeout''))
              else Inr (Inr \<lparr>rd = [0x81, 0x08, 0, 0, 0, 0, 0, 0, 0, 0, 0, 0,
                                     0, 0, 0, 0, 0, 0, 0, 0, 0, 0, 0, 0], wr = [], wok = 1\<rparr>))
           [\<lparr>Server = ''10.0.0.1:11211'', User = [], Password = [], InitialCap = 0, MaxCap = 5,
              MaxIdle = 4, IdleTimeout = 15, ConnectionTimeout = 30\<rparr>,
            \<lparr>Server = ''10.0.0.2:11211'', User = [], Password = [], InitialCap = 0, MaxCap = 5,
              MaxIdle = 4, IdleTimeout = 15, ConnectionTimeout = 30\<rparr>,
            \<lparr>Server = ''10.0.0.3:11211'', User = [], Password = [], InitialCap = 0, MaxCap = 5,
              MaxIdle = 4, IdleTimeout = 15, ConnectionTimeout = 30\<rparr>] of
      Inl err \<Rightarrow> None
    | Inr s \<Rightarrow> Some (serversNames s, Flush s 0 []))
   = Some ([[], [], [], ''10.0.0.1:11211'', ''10.0.0.2:11211'', ''10.0.0.3:11211''],
           Returns (Some (ErrOther ''failed to flush some servers: : i/o timeout'')),
           [Got 0,
            Put 0 \<lparr>rd = [], wr = [0x80, 0x08, 0, 0, 0, 0, 0, 0, 0, 0, 0, 0,
                                  0, 0, 0, 0, 0, 0, 0, 0, 0, 0, 0, 0], wok = 0\<rparr>,
            Got 2,
            Put 2 \<lparr>rd = [], wr = [0x80, 0x08, 0, 0, 0, 0, 0, 0, 0, 0, 0, 0,
                                  0, 0, 0, 0, 0, 0, 0, 0, 0, 0, 0, 0], wok = 0\<rparr>])"
  by (simp add: NewServerList_def Flush_def Name_def Error_def cmdFlush_def pool_defs codec_defs)

subsection \<open>Batch get\<close>





lemma GetConnection_valid:
  "GetConnection s i l = (Returns (Inr cn), l1) \<Longrightarrow>
     l1 = l @ [Got i] \<and> \<not> poolLen s < i \<and> unat i < length (pool s)"
  by (auto simp: GetConnection_def split: if_splits sum.splits)

lemma sendConnCommand_error:
  "sendConnCommand cn key cmd val cas extras = (Some err, cn') \<Longrightarrow>
     err = ErrOther ''write: broken pipe''"
  by (auto simp: sendConnCommand_def Write_def split: if_splits prod.splits option.splits)












subsection \<open>Compare and swap\<close>

lemma asError_never_CASConflict: "asError r \<noteq> ErrCASConflict"
  by (simp add: asError_def)

lemma readAtLeast_error: "readAtLeast cn n = (Inl err, cn') \<Longrightarrow> err \<noteq> ErrCASConflict"
  by (auto simp: readAtLeast_def split: if_splits)

lemma parseResponse_never_CASConflict: "fst (parseResponse rKey cn) \<noteq> Inl ErrCASConflict"
  unfolding parseResponse_def Let_def
  by (auto simp: asError_never_CASConflict CopyN_Discard_def
           split: prod.splits sum.splits option.splits if_splits
           dest: readAtLeast_error)

text \<open>
  Claim C2 asks \<^verbatim>\<open>CompareAndSwap\<close> with a stale cas token, which the server
  answers with the key-exists status, to fail with \<^verbatim>\<open>ErrCASConflict\<close>. On that
  response the call returns \<^verbatim>\<open>ErrNotStored\<close>: \<^verbatim>\<open>asError\<close> maps
  \<^verbatim>\<open>respKeyExists\<close> to it, and no response makes \<^verbatim>\<open>parseResponse\<close> return
  \<^verbatim>\<open>ErrCASConflict\<close> (lemma \<open>parseResponse_never_CASConflict\<close>).
\<close>

theorem CompareAndSwap_stale_token:
  "CompareAndSwap
     \<lparr>pool = [Inr \<lparr>rd = [0x81, 0x01, 0, 0, 0, 0, 0, 2, 0, 0, 0, 0, 0, 0, 0, 0, 0, 0, 0, 0, 0, 0, 0, 0],
                   wr = [], wok = 2\<rparr>],
      poolLen = 1, serversNames = [[], ''localhost:11211'']\<rparr>
     \<lparr>Key = ''k'', Value = [0x31], Flags = 0, Expiration = 0, casid = 7\<rparr> []
   = (Returns (Some ErrNotStored),
      \<lparr>Key = ''k'', Value = [0x31], Flags = 0, Expiration = 0, casid = 7\<rparr>,
      [Got 0, Put 0 \<lparr>rd = [], wr = [0x80, 0x01, 0, 1, 8, 0, 0, 0, 0, 0, 0, 10, 0, 0, 0, 0,
                                      0, 0, 0, 0, 0, 0, 0, 7, 0, 0, 0, 0, 0, 0, 0, 0, 0x6b, 0x31],
                        wok = 0\<rparr>])"
  by (simp add: CompareAndSwap_def populateOne_def pool_defs cmdSet_def codec_defs)

subsection \<open>Lifecycle of the single-key operations\<close>

text \<open>
  The single-key operations keep to the lifecycle policy: the log of \<^verbatim>\<open>Get\<close>,
  \<^verbatim>\<open>populateOne\<close> (behind \<^verbatim>\<open>Set\<close>, \<^verbatim>\<open>Add\<close> and \<^verbatim>\<open>CompareAndSwap\<close>),
  \<^verbatim>\<open>Delete\<close> and \<^verbatim>\<open>incrDecr\<close> grows by nothing (no connection was acquired),
  by a checkout and a return (and then the error, if any, is one of the four
  recoverable ones), or by a checkout and a forced close (and then the error is
  none of them). A shard task of \<^verbatim>\<open>GetMulti\<close> whose writes succeed adds the
  checkout alone.
\<close>

lemma switchErr_valid:
  assumes "\<not> poolLen s < i" and "unat i < length (pool s)"
  shows "switchErr s i cn err l =
           Returns (l @ [if err \<in> {None, Some ErrCacheMiss, Some ErrCASConflict, Some ErrNotStored,
                                      Some ErrBadIncrDec}
                         then Put i cn else Closed i cn])"
  using assms by (auto simp: switchErr_def PutConnection_def CloseConnection_def)

lemma CloseConnection_valid:
  assumes "\<not> poolLen s < i" and "unat i < length (pool s)"
  shows "CloseConnection s i cn l = Returns (l @ [Closed i cn])"
  using assms by (simp add: CloseConnection_def)

lemma PutConnection_valid:
  assumes "\<not> poolLen s < i" and "unat i < length (pool s)"
  shows "PutConnection s i cn l = Returns (l @ [Put i cn])"
  using assms by (simp add: PutConnection_def)

lemma GetConnection_cases:
  "(\<exists>cn. GetConnection s i l = (Returns (Inr cn), l @ [Got i]) \<and> \<not> poolLen s < i
          \<and> unat i < length (pool s))
   \<or> (\<exists>r. GetConnection s i l = (r, l) \<and> (\<forall>cn. r \<noteq> Returns (Inr cn)))"
  by (auto simp: GetConnection_def split: sum.splits)

lemma Get_lifecycle:
  assumes "Get s key log = (r, log')"
  shows "log' = log
     \<or> (\<exists>i cn. log' = log @ [Got i, Put i cn]
           \<and> (\<forall>e. r = Returns (Inl e)
                  \<longrightarrow> e \<in> {ErrCacheMiss, ErrCASConflict, ErrNotStored, ErrBadIncrDec}))
     \<or> (\<exists>i cn e. log' = log @ [Got i, Closed i cn] \<and> r = Returns (Inl e)
           \<and> e \<notin> {ErrCacheMiss, ErrCASConflict, ErrNotStored, ErrBadIncrDec})"
proof (cases "PickServerIndex s key")
  case (Panics m)
  with assms show ?thesis by (simp add: Get_def)
next
  case (Returns pr)
  show ?thesis
  proof (cases pr)
    case (Inl e)
    with Returns assms show ?thesis by (simp add: Get_def)
  next
    case (Inr i)
    from GetConnection_cases [of s i log] show ?thesis
    proof (elim disjE exE conjE)
      fix r' assume "GetConnection s i log = (r', log)" "\<forall>cn. r' \<noteq> Returns (Inr cn)"
      with Returns Inr assms show ?thesis
        by (auto simp: Get_def split: outcome.splits sum.splits)
    next
      fix cn assume g: "GetConnection s i log = (Returns (Inr cn), log @ [Got i])"
        and v: "\<not> poolLen s < i" "unat i < length (pool s)"
      show ?thesis
        using assms Returns Inr g
        by (auto simp: Get_def switchErr_valid [OF v] CloseConnection_valid [OF v]
                 split: prod.splits option.splits sum.splits outcome.splits if_splits
                 dest: sendConnCommand_error)
    qed
  qed
qed

lemma populateOne_lifecycle:
  assumes "populateOne s cmd item cas log = (r, item', log')"
  shows "log' = log
     \<or> (\<exists>i cn. log' = log @ [Got i, Put i cn]
           \<and> (\<forall>e. r = Returns (Some e)
                  \<longrightarrow> e \<in> {ErrCacheMiss, ErrCASConflict, ErrNotStored, ErrBadIncrDec}))
     \<or> (\<exists>i cn e. log' = log @ [Got i, Closed i cn] \<and> r = Returns (Some e)
           \<and> e \<notin> {ErrCacheMiss, ErrCASConflict, ErrNotStored, ErrBadIncrDec})"
proof (cases "PickServerIndex s (Key item)")
  case (Panics m)
  with assms show ?thesis by (simp add: populateOne_def)
next
  case (Returns pr)
  show ?thesis
  proof (cases pr)
    case (Inl e)
    with Returns assms show ?thesis by (simp add: populateOne_def)
  next
    case (Inr i)
    from GetConnection_cases [of s i log] show ?thesis
    proof (elim disjE exE conjE)
      fix r' assume "GetConnection s i log = (r', log)" "\<forall>cn. r' \<noteq> Returns (Inr cn)"
      with Returns Inr assms show ?thesis
        by (auto simp: populateOne_def split: outcome.splits sum.splits)
    next
      fix cn assume g: "GetConnection s i log = (Returns (Inr cn), log @ [Got i])"
        and v: "\<not> poolLen s < i" "unat i < length (pool s)"
      show ?thesis
        using assms Returns Inr g
        by (auto simp: populateOne_def Let_def switchErr_valid [OF v] CloseConnection_valid [OF v]
                   PutConnection_valid [OF v]
                 split: prod.splits option.splits sum.splits outcome.splits if_splits
                 dest: sendConnCommand_error)
    qed
  qed
qed

lemma Delete_lifecycle:
  assumes "Delete s key log = (r, log')"
  shows "log' = log
     \<or> (\<exists>i cn. log' = log @ [Got i, Put i cn]
           \<and> (\<forall>e. r = Returns (Some e)
                  \<longrightarrow> e \<in> {ErrCacheMiss, ErrCASConflict, ErrNotStored, ErrBadIncrDec}))
     \<or> (\<exists>i cn e. log' = log @ [Got i, Closed i cn] \<and> r = Returns (Some e)
           \<and> e \<notin> {ErrCacheMiss, ErrCASConflict, ErrNotStored, ErrBadIncrDec})"
proof (cases "PickServerIndex s key")
  case (Panics m)
  with assms show ?thesis by (simp add: Delete_def)
next
  case (Returns pr)
  show ?thesis
  proof (cases pr)
    case (Inl e)
    with Returns assms show ?thesis by (simp add: Delete_def)
  next
    case (Inr i)
    from GetConnection_cases [of s i log] show ?thesis
    proof (elim disjE exE conjE)
      fix r' assume "GetConnection s i log = (r', log)" "\<forall>cn. r' \<noteq> Returns (Inr cn)"
      with Returns Inr assms show ?thesis
        by (auto simp: Delete_def split: outcome.splits sum.splits)
    next
      fix cn assume g: "GetConnection s i log = (Returns (Inr cn), log @ [Got i])"
        and v: "\<not> poolLen s < i" "unat i < length (pool s)"
      show ?thesis
        using assms Returns Inr g
        by (auto simp: Delete_def Let_def switchErr_valid [OF v] CloseConnection_valid [OF v]
                 split: prod.splits option.splits sum.splits outcome.splits if_splits
                 dest: sendConnCommand_error)
    qed
  qed
qed

lemma incrDecr_lifecycle:
  assumes "incrDecr s cmd key delta log = (r, log')"
  shows "log' = log
     \<or> (\<exists>i cn. log' = log @ [Got i, Put i cn]
           \<and> (\<forall>e. r = Returns (Inl e)
                  \<longrightarrow> e \<in> {ErrCacheMiss, ErrCASConflict, ErrNotStored, ErrBadIncrDec}))
     \<or> (\<exists>i cn e. log' = log @ [Got i, Closed i cn] \<and> r = Returns (Inl e)
           \<and> e \<notin> {ErrCacheMiss, ErrCASConflict, ErrNotStored, ErrBadIncrDec})"
proof (cases "PickServerIndex s key")
  case (Panics m)
  with assms show ?thesis by (simp add: incrDecr_def)
next
  case (Returns pr)
  show ?thesis
  proof (cases pr)
    case (Inl e)
    with Returns assms show ?thesis by (simp add: incrDecr_def)
  next
    case (Inr i)
    from GetConnection_cases [of s i log] show ?thesis
    proof (elim disjE exE conjE)
      fix r' assume "GetConnection s i log = (r', log)" "\<forall>cn. r' \<noteq> Returns (Inr cn)"
      with Returns Inr assms show ?thesis
        by (auto simp: incrDecr_def split: outcome.splits sum.splits)
    next
      fix cn assume g: "GetConnection s i log = (Returns (Inr cn), log @ [Got i])"
        and v: "\<not> poolLen s < i" "unat i < length (pool s)"
      show ?thesis
        using assms Returns Inr g
        by (auto simp: incrDecr_def Let_def switchErr_valid [OF v] CloseConnection_valid [OF v]
                 split: prod.splits option.splits sum.splits outcome.splits if_splits
                 dest: sendConnCommand_error)
    qed
  qed
qed

lemma shardTask_keeps_connection:
  assumes "GetConnection s i l = (Returns (Inr cn), l1)"
    and "sendKeys cn ks = (None, cn1)"
    and "sendConnCommand cn1 [] cmdNoop [] 0 [] = (None, cn2)"
  shows "snd (shardTask s i ks l) = l @ [Got i]"
  using assms GetConnection_valid [OF assms(1)]
  by (simp add: shardTask_def split: prod.splits)

end
